theory Spec2Isabelle
  imports Main "HOL-Library.Sublist" "HOL-Library.AList"
begin

section \<open>The JSON route layer of the web application (lib/app\_server\_lib.py)\<close>

text \<open>
  The module is the HTTP route layer: every JSON handler is a view function under a stack
  of decorators (\<open>_JsonView\<close>, \<open>_RequireAuth\<close>, \<open>_RequireText\<close>). The theory follows
  the module function by function. The collaborators the module imports
  (\<open>models_lib\<close>, \<open>auth_lib\<close>, \<open>asciidoc_lib\<close>, \<open>env_lib\<close>, the login session, the
  document database) are parameters, collected in the record \<open>env\<close>; the state that
  outlives a request (the session's current user and the database) is the record
  \<open>world\<close>, passed in and returned.
\<close>

subsection \<open>Request and response values\<close>

text \<open>
  What \<open>flask.request.get_json()\<close> yields and what \<open>json.dumps\<close> accepts. An object is
  an association list read with \<open>map_of\<close>; \<open>JNull\<close> is Python's \<open>None\<close>. A JSON number
  is kept as an integer: the handlers only ever test a number for truth, and ask of it
  things no number provides (membership, length, \<open>.get\<close>).
\<close>

datatype json =
    JNull
  | JBool bool
  | JNum int
  | JStr string
  | JList "json list"
  | JObj "(string \<times> json) list"

text \<open>
  The exceptions that can leave a handler: the three Python raises on a value of the
  wrong kind, and the two exceptions of the document store's \<open>save\<close> that the module
  names.
\<close>

datatype exn = TypeError | KeyError | AttributeError | NotUniqueError | ValidationError

record user =
  user_id :: string

record document =
  document_id :: string
  owner :: "user option"
  content :: "(string \<times> json) list"

text \<open>
  The session and the database. \<open>current_user = None\<close> is the anonymous user, for whom
  \<open>is_authenticated()\<close> is false.
\<close>

record 'db world =
  current_user :: "user option"
  db :: "'db"

text \<open>
  A request ends in a response (a JSON value, with the world it leaves) or in an uncaught
  exception, which the framework turns into an HTTP 500 answer. A handler's result is an
  option of this: \<open>None\<close> stands for a handler that never returns.
\<close>

datatype 'db result = Returns json "'db world" | Raises exn

text \<open>
  The collaborators. \<open>document_save\<close> either writes and yields the new database or
  raises and has written nothing (the store validates before it writes, and a rejected
  insert inserts nothing). \<open>NewDocumentId\<close> is random in the source; here the
  identifiers it will yield, in order, are the sequence \<open>ids\<close> given to
  \<open>CreateDocument\<close>.
\<close>

record 'db env =
  MAX_SOURCE_TEXT_SIZE :: int
  GetAsciiDocResult :: "json \<Rightarrow> int \<times> string \<times> string"
  ACCOUNT_PROVIDERS :: "string \<rightharpoonup> (json \<Rightarrow> json \<Rightarrow> bool)"
  FindOrCreateUser :: "(json \<times> json \<times> json) list \<Rightarrow> 'db \<Rightarrow> user \<times> 'db"
  UserDocument :: document
  UserDocument_Get :: "string \<Rightarrow> 'db \<Rightarrow> document option"
  IsReadableByUser :: "document \<Rightarrow> user option \<Rightarrow> bool"
  IsWritableByUser :: "document \<Rightarrow> user option \<Rightarrow> bool"
  FromJson :: "document \<Rightarrow> json \<Rightarrow> document"
  toJson :: "document \<Rightarrow> (string \<times> json) list"
  document_save :: "document \<Rightarrow> 'db \<Rightarrow> exn + 'db"
  document_delete :: "document \<Rightarrow> 'db \<Rightarrow> 'db"

subsection \<open>Python's operations on a JSON value\<close>

text \<open>\<open>key in x\<close>: a key of a dict, an element of a list, a substring of a string;
  any other value is not iterable.\<close>

fun py_contains :: "string \<Rightarrow> json \<Rightarrow> exn + bool" where
  "py_contains k (JObj kvs) = Inr (map_of kvs k \<noteq> None)"
| "py_contains k (JList xs) = Inr (JStr k \<in> set xs)"
| "py_contains k (JStr s) = Inr (sublist k s)"
| "py_contains k _ = Inl TypeError"

text \<open>\<open>x[key]\<close> with a string key: only a dict takes one.\<close>

fun py_getitem :: "json \<Rightarrow> string \<Rightarrow> exn + json" where
  "py_getitem (JObj kvs) k = (case map_of kvs k of None \<Rightarrow> Inl KeyError | Some v \<Rightarrow> Inr v)"
| "py_getitem _ k = Inl TypeError"

text \<open>\<open>x.get(key, None)\<close>: only a dict has the method.\<close>

fun py_get :: "json \<Rightarrow> string \<Rightarrow> exn + json" where
  "py_get (JObj kvs) k = (case map_of kvs k of None \<Rightarrow> Inr JNull | Some v \<Rightarrow> Inr v)"
| "py_get _ k = Inl AttributeError"

text \<open>\<open>len(x)\<close>.\<close>

fun py_len :: "json \<Rightarrow> exn + nat" where
  "py_len (JStr s) = Inr (length s)"
| "py_len (JList xs) = Inr (length xs)"
| "py_len (JObj kvs) = Inr (length (remdups (map fst kvs)))"
| "py_len _ = Inl TypeError"

text \<open>Truth of a value, as \<open>not x\<close> tests it.\<close>

fun py_truthy :: "json \<Rightarrow> bool" where
  "py_truthy JNull = False"
| "py_truthy (JBool b) = b"
| "py_truthy (JNum n) = (n \<noteq> 0)"
| "py_truthy (JStr s) = (s \<noteq> [])"
| "py_truthy (JList xs) = (xs \<noteq> [])"
| "py_truthy (JObj kvs) = (kvs \<noteq> [])"

text \<open>\<open>x not in ACCOUNT_PROVIDERS\<close>: the table is keyed by strings; a list or a dict
  cannot be hashed; any other value is hashed and is no key.\<close>

fun not_in_providers :: "json \<Rightarrow> (string \<rightharpoonup> 'p) \<Rightarrow> exn + bool" where
  "not_in_providers (JStr s) ps = Inr (ps s = None)"
| "not_in_providers (JList xs) ps = Inl TypeError"
| "not_in_providers (JObj kvs) ps = Inl TypeError"
| "not_in_providers _ ps = Inr True"

subsection \<open>The stock responses\<close>

definition SUCCESS_RESPONSE :: json where
  "SUCCESS_RESPONSE = JObj [(''success'', JBool True)]"

definition INVALID_REQUEST_RESPONSE :: json where
  "INVALID_REQUEST_RESPONSE =
     JObj [(''success'', JBool False), (''error_message'', JStr ''Invalid request'')]"

definition NOT_AUTHENTICATED_RESPONSE :: json where
  "NOT_AUTHENTICATED_RESPONSE =
     JObj [(''success'', JBool False), (''error_message'', JStr ''Not authenticated'')]"

definition INVALID_DOCUMENT_ID_RESPONSE :: json where
  "INVALID_DOCUMENT_ID_RESPONSE =
     JObj [(''success'', JBool False), (''error_message'', JStr ''Invalid document ID'')]"

subsection \<open>The decorators\<close>

text \<open>
  A view takes the world, the request's JSON body and the arguments of the route.
  \<open>_JsonView\<close> hands the view the parsed body and serialises what it returns; the
  response is kept here as the JSON value that is serialised.
\<close>

type_synonym ('db, 'a) view = "'db world \<Rightarrow> json \<Rightarrow> 'a \<Rightarrow> 'db result option"

definition JsonView :: "('db, 'a) view \<Rightarrow> ('db, 'a) view" where
  "JsonView view_function w request_data args = view_function w request_data args"

definition RequireAuth :: "('db, 'a) view \<Rightarrow> ('db, 'a) view" where
  "RequireAuth view_function w request_data args =
     (if current_user w = None then Some (Returns NOT_AUTHENTICATED_RESPONSE w)
      else view_function w request_data args)"

definition RequireText :: "'db env \<Rightarrow> ('db, 'a) view \<Rightarrow> ('db, 'a) view" where
  "RequireText env view_function w request_data args =
     (case py_contains ''text'' request_data of
        Inl e \<Rightarrow> Some (Raises e)
      | Inr False \<Rightarrow> Some (Returns INVALID_REQUEST_RESPONSE w)
      | Inr True \<Rightarrow>
          (case py_getitem request_data ''text'' of
             Inl e \<Rightarrow> Some (Raises e)
           | Inr t \<Rightarrow>
               (case py_len t of
                  Inl e \<Rightarrow> Some (Raises e)
                | Inr n \<Rightarrow>
                    if int n > MAX_SOURCE_TEXT_SIZE env
                    then Some (Returns INVALID_REQUEST_RESPONSE w)
                    else view_function w request_data args)))"

subsection \<open>The handlers\<close>

definition AsciiDocToHtml :: "'db env \<Rightarrow> ('db, unit) view" where
  "AsciiDocToHtml env w request_data args =
     (case py_getitem request_data ''text'' of
        Inl e \<Rightarrow> Some (Raises e)
      | Inr t \<Rightarrow>
          (case GetAsciiDocResult env t of
             (return_code, stdout_output, stderr_output) \<Rightarrow>
               Some (Returns
                 (JObj [(''success'', JBool (return_code = 0)),
                        (''html'', JStr stdout_output),
                        (''error_message'', JStr stderr_output)]) w)))"

definition AsciiDocToHtml_route :: "'db env \<Rightarrow> ('db, unit) view" where
  "AsciiDocToHtml_route env = JsonView (RequireText env (AsciiDocToHtml env))"

definition Logout :: "('db, unit) view" where
  "Logout w request_data args = Some (Returns SUCCESS_RESPONSE (w\<lparr>current_user := None\<rparr>))"

definition Logout_route :: "('db, unit) view" where
  "Logout_route = JsonView (RequireAuth Logout)"

text \<open>
  \<open>ACCOUNT_PROVIDERS[x]\<close>: the lookup that follows the membership test.
\<close>

fun provider_of :: "json \<Rightarrow> (string \<rightharpoonup> 'p) \<Rightarrow> exn + 'p" where
  "provider_of (JStr s) ps = (case ps s of None \<Rightarrow> Inl KeyError | Some p \<Rightarrow> Inr p)"
| "provider_of (JList xs) ps = Inl TypeError"
| "provider_of (JObj kvs) ps = Inl TypeError"
| "provider_of _ ps = Inl KeyError"

definition INVALID_TOKEN_RESPONSE :: json where
  "INVALID_TOKEN_RESPONSE =
     JObj [(''success'', JBool False), (''error_message'', JStr ''Invalid token'')]"

text \<open>
  One turn of the loop of \<open>Auth\<close> over the submitted accounts: an exception, an early
  return of a response (\<open>Inr (Inl r)\<close>), or the triple appended to \<open>accounts\<close>.
\<close>

definition Auth_account :: "'db env \<Rightarrow> json \<Rightarrow> exn + (json + json \<times> json \<times> json)" where
  "Auth_account env account_data =
     (case py_get account_data ''account_provider_type'' of Inl e \<Rightarrow> Inl e | Inr t \<Rightarrow>
      if \<not> py_truthy t then Inr (Inl INVALID_REQUEST_RESPONSE) else
     (case py_get account_data ''user_id'' of Inl e \<Rightarrow> Inl e | Inr u \<Rightarrow>
      if \<not> py_truthy u then Inr (Inl INVALID_REQUEST_RESPONSE) else
     (case py_get account_data ''auth_token'' of Inl e \<Rightarrow> Inl e | Inr k \<Rightarrow>
      if \<not> py_truthy k then Inr (Inl INVALID_REQUEST_RESPONSE) else
     (case py_getitem account_data ''account_provider_type'' of Inl e \<Rightarrow> Inl e | Inr ty \<Rightarrow>
     (case not_in_providers ty (ACCOUNT_PROVIDERS env) of Inl e \<Rightarrow> Inl e | Inr absent \<Rightarrow>
      if absent then Inr (Inl INVALID_REQUEST_RESPONSE) else
     (case provider_of ty (ACCOUNT_PROVIDERS env) of Inl e \<Rightarrow> Inl e | Inr IsTokenValid \<Rightarrow>
     (case py_getitem account_data ''user_id'' of Inl e \<Rightarrow> Inl e | Inr uid \<Rightarrow>
     (case py_getitem account_data ''auth_token'' of Inl e \<Rightarrow> Inl e | Inr token \<Rightarrow>
      if \<not> IsTokenValid uid token then Inr (Inl INVALID_TOKEN_RESPONSE) else
     (case py_getitem account_data ''data'' of Inl e \<Rightarrow> Inl e | Inr data \<Rightarrow>
        Inr (Inr (ty, uid, data)))))))))))"

fun Auth_accounts ::
  "'db env \<Rightarrow> json list \<Rightarrow> (json \<times> json \<times> json) list \<Rightarrow>
   exn + (json + (json \<times> json \<times> json) list)" where
  "Auth_accounts env [] accounts = Inr (Inr accounts)"
| "Auth_accounts env (account_data # rest) accounts =
     (case Auth_account env account_data of
        Inl e \<Rightarrow> Inl e
      | Inr (Inl response) \<Rightarrow> Inr (Inl response)
      | Inr (Inr account) \<Rightarrow> Auth_accounts env rest (accounts @ [account]))"

definition Auth :: "'db env \<Rightarrow> ('db, unit) view" where
  "Auth env w request_data args =
     (case py_contains ''accounts'' request_data of
        Inl e \<Rightarrow> Some (Raises e)
      | Inr False \<Rightarrow> Some (Returns INVALID_REQUEST_RESPONSE w)
      | Inr True \<Rightarrow>
          (case py_getitem request_data ''accounts'' of
             Inl e \<Rightarrow> Some (Raises e)
           | Inr (JList account_list) \<Rightarrow>
               if account_list = [] then Some (Returns INVALID_REQUEST_RESPONSE w)
               else
                 (case Auth_accounts env account_list [] of
                    Inl e \<Rightarrow> Some (Raises e)
                  | Inr (Inl response) \<Rightarrow> Some (Returns response w)
                  | Inr (Inr accounts) \<Rightarrow>
                      (case FindOrCreateUser env accounts (db w) of
                         (user, db') \<Rightarrow>
                           Some (Returns
                             (JObj [(''success'', JBool True),
                                    (''user_id'', JStr (user_id user))])
                             (w\<lparr>current_user := Some user, db := db'\<rparr>))))
           | Inr _ \<Rightarrow> Some (Returns INVALID_REQUEST_RESPONSE w)))"

definition Auth_route :: "'db env \<Rightarrow> ('db, unit) view" where
  "Auth_route env = JsonView (Auth env)"

text \<open>
  The \<open>while True\<close> loop of \<open>CreateDocument\<close>: turn \<open>n\<close> takes the \<open>n\<close>-th identifier,
  saves, and goes round again on \<open>NotUniqueError\<close> only. The loop has no bound, so the
  function is partial: where every save collides it has no value.
\<close>

partial_function (option) CreateDocument_loop ::
  "'db env \<Rightarrow> 'db world \<Rightarrow> document \<Rightarrow> (nat \<Rightarrow> string) \<Rightarrow> nat \<Rightarrow> 'db result option" where
  "CreateDocument_loop env w document ids n =
     (case document_save env (document\<lparr>document_id := ids n\<rparr>) (db w) of
        Inl e \<Rightarrow>
          if e = NotUniqueError
          then CreateDocument_loop env w (document\<lparr>document_id := ids n\<rparr>) ids (Suc n)
          else if e = ValidationError then Some (Returns INVALID_REQUEST_RESPONSE w)
          else Some (Raises e)
      | Inr db' \<Rightarrow>
          Some (Returns
            (JObj [(''success'', JBool True), (''document_id'', JStr (ids n))])
            (w\<lparr>db := db'\<rparr>)))"

definition CreateDocument :: "'db env \<Rightarrow> (nat \<Rightarrow> string) \<Rightarrow> ('db, unit) view" where
  "CreateDocument env ids w request_data args =
     CreateDocument_loop env w
       (FromJson env ((UserDocument env)\<lparr>owner := current_user w\<rparr>) request_data) ids 0"

definition CreateDocument_route :: "'db env \<Rightarrow> (nat \<Rightarrow> string) \<Rightarrow> ('db, unit) view" where
  "CreateDocument_route env ids =
     JsonView (RequireAuth (RequireText env (CreateDocument env ids)))"

definition GetDocument :: "'db env \<Rightarrow> ('db, string) view" where
  "GetDocument env w request_data doc_id =
     (case UserDocument_Get env doc_id (db w) of
        None \<Rightarrow> Some (Returns INVALID_DOCUMENT_ID_RESPONSE w)
      | Some document \<Rightarrow>
          if \<not> IsReadableByUser env document (current_user w)
          then Some (Returns NOT_AUTHENTICATED_RESPONSE w)
          else Some (Returns
                 (JObj (AList.update ''success'' (JBool True) (toJson env document))) w))"

definition GetDocument_route :: "'db env \<Rightarrow> ('db, string) view" where
  "GetDocument_route env = JsonView (RequireAuth (GetDocument env))"

definition SaveDocument :: "'db env \<Rightarrow> ('db, string) view" where
  "SaveDocument env w request_data doc_id =
     (case UserDocument_Get env doc_id (db w) of
        None \<Rightarrow> Some (Returns INVALID_DOCUMENT_ID_RESPONSE w)
      | Some document \<Rightarrow>
          if \<not> IsWritableByUser env document (current_user w)
          then Some (Returns NOT_AUTHENTICATED_RESPONSE w)
          else
            (case document_save env (FromJson env document request_data) (db w) of
               Inl e \<Rightarrow>
                 if e = ValidationError then Some (Returns INVALID_REQUEST_RESPONSE w)
                 else Some (Raises e)
             | Inr db' \<Rightarrow> Some (Returns SUCCESS_RESPONSE (w\<lparr>db := db'\<rparr>))))"

definition SaveDocument_route :: "'db env \<Rightarrow> ('db, string) view" where
  "SaveDocument_route env = JsonView (RequireAuth (RequireText env (SaveDocument env)))"

definition DeleteDocument :: "'db env \<Rightarrow> ('db, string) view" where
  "DeleteDocument env w request_data doc_id =
     (case UserDocument_Get env doc_id (db w) of
        None \<Rightarrow> Some (Returns INVALID_DOCUMENT_ID_RESPONSE w)
      | Some document \<Rightarrow>
          if \<not> IsWritableByUser env document (current_user w)
          then Some (Returns NOT_AUTHENTICATED_RESPONSE w)
          else Some (Returns SUCCESS_RESPONSE (w\<lparr>db := document_delete env document (db w)\<rparr>)))"

definition DeleteDocument_route :: "'db env \<Rightarrow> ('db, string) view" where
  "DeleteDocument_route env = JsonView (RequireAuth (DeleteDocument env))"

subsection \<open>Reading a response\<close>

text \<open>The \<open>success\<close> field of a response, when it is an object that has a boolean one.\<close>

fun success_of :: "json \<Rightarrow> bool option" where
  "success_of (JObj kvs) =
     (case map_of kvs ''success'' of Some (JBool b) \<Rightarrow> Some b | _ \<Rightarrow> None)"
| "success_of _ = None"

text \<open>The \<open>error_message\<close> field, when the response is an object that has a string one.\<close>

fun error_message_of :: "json \<Rightarrow> string option" where
  "error_message_of (JObj kvs) =
     (case map_of kvs ''error_message'' of Some (JStr s) \<Rightarrow> Some s | _ \<Rightarrow> None)"
| "error_message_of _ = None"

text \<open>The shape of a response of the JSON API: an object with a boolean \<open>success\<close>, and
  a string \<open>error_message\<close> when \<open>success\<close> is false.\<close>

definition api_response :: "json \<Rightarrow> bool" where
  "api_response r =
     (case success_of r of
        None \<Rightarrow> False
      | Some b \<Rightarrow> b \<or> error_message_of r \<noteq> None)"

text \<open>The body passes the test of \<open>_RequireText\<close>: it is an object with a \<open>text\<close> that
  has a length, and the length is at most the maximum.\<close>

definition text_accepted :: "'db env \<Rightarrow> json \<Rightarrow> bool" where
  "text_accepted env request_data =
     (case py_getitem request_data ''text'' of
        Inl e \<Rightarrow> False
      | Inr t \<Rightarrow> (case py_len t of Inl e \<Rightarrow> False | Inr n \<Rightarrow> int n \<le> MAX_SOURCE_TEXT_SIZE env))"

text \<open>The body carries a \<open>text\<close> that is longer than the maximum.\<close>

definition text_too_long :: "'db env \<Rightarrow> json \<Rightarrow> bool" where
  "text_too_long env request_data =
     (case py_getitem request_data ''text'' of
        Inl e \<Rightarrow> False
      | Inr t \<Rightarrow> (case py_len t of Inl e \<Rightarrow> False | Inr n \<Rightarrow> int n > MAX_SOURCE_TEXT_SIZE env))"

subsection \<open>An instance of the collaborators\<close>

text \<open>
  A small instance on which the theorems below are run: the database is an association
  list from identifier to document, a document is readable and writable by its owner
  only, one provider \<open>google\<close> accepts the token \<open>ok\<close>, the store refuses the
  visibility \<open>bogus\<close> as invalid and the identifier \<open>taken\<close> as not unique, and the
  text of a request is at most five characters long.
\<close>

definition example_env :: "(string \<times> document) list env" where
  "example_env =
     \<lparr> MAX_SOURCE_TEXT_SIZE = 5,
       GetAsciiDocResult =
         (\<lambda>t. case t of JStr s \<Rightarrow> (0, ''<p>'' @ s @ ''</p>'', [])
                       | _ \<Rightarrow> (1, [], ''not a string'')),
       ACCOUNT_PROVIDERS = [''google'' \<mapsto> (\<lambda>uid token. token = JStr ''ok'')],
       FindOrCreateUser = (\<lambda>accounts d. (\<lparr>user_id = ''u1''\<rparr>, d)),
       UserDocument = \<lparr>document_id = [], owner = None, content = []\<rparr>,
       UserDocument_Get = (\<lambda>i d. map_of d i),
       IsReadableByUser = (\<lambda>doc u. owner doc = u),
       IsWritableByUser = (\<lambda>doc u. owner doc = u),
       FromJson = (\<lambda>doc j. doc\<lparr>content := (case j of JObj kvs \<Rightarrow> kvs | _ \<Rightarrow> [])\<rparr>),
       toJson = (\<lambda>doc. (''document_id'', JStr (document_id doc)) # content doc),
       document_save =
         (\<lambda>doc d. if map_of (content doc) ''visibility'' = Some (JStr ''bogus'')
                   then Inl ValidationError
                   else if document_id doc = ''taken'' then Inl NotUniqueError
                   else Inr (AList.update (document_id doc) doc d)),
       document_delete = (\<lambda>doc d. AList.delete (document_id doc) d) \<rparr>"

definition alice :: user where
  "alice = \<lparr>user_id = ''alice''\<rparr>"

definition bob :: user where
  "bob = \<lparr>user_id = ''bob''\<rparr>"

definition bobs_document :: document where
  "bobs_document = \<lparr>document_id = ''d1'', owner = Some bob, content = [(''text'', JStr ''hi'')]\<rparr>"

definition example_db :: "(string \<times> document) list" where
  "example_db = [(''d1'', bobs_document)]"

text \<open>The same database seen by nobody, by Alice and by Bob.\<close>

definition anonymous_world :: "(string \<times> document) list world" where
  "anonymous_world = \<lparr>current_user = None, db = example_db\<rparr>"

definition alice_world :: "(string \<times> document) list world" where
  "alice_world = \<lparr>current_user = Some alice, db = example_db\<rparr>"

definition bob_world :: "(string \<times> document) list world" where
  "bob_world = \<lparr>current_user = Some bob, db = example_db\<rparr>"

text \<open>Identifiers as \<open>NewDocumentId\<close> may yield them: the first one is taken.\<close>

definition example_ids :: "nat \<Rightarrow> string" where
  "example_ids n = (if n = 0 then ''taken'' else ''d2'')"

section \<open>Properties\<close>

subsection \<open>The decorators\<close>

lemmas route_defs =
  JsonView_def Logout_route_def CreateDocument_route_def GetDocument_route_def
  SaveDocument_route_def DeleteDocument_route_def AsciiDocToHtml_route_def Auth_route_def

lemma getitem_text_contains:
  "py_getitem request_data k = Inr t \<Longrightarrow> py_contains k request_data = Inr True"
  by (cases request_data) (auto split: option.splits)

lemma RequireText_accepted:
  "text_accepted env request_data \<Longrightarrow>
   RequireText env view_function w request_data args = view_function w request_data args"
  by (auto simp: text_accepted_def RequireText_def getitem_text_contains
           split: sum.splits)

lemma RequireText_too_long:
  "text_too_long env request_data \<Longrightarrow>
   RequireText env view_function w request_data args =
     Some (Returns INVALID_REQUEST_RESPONSE w)"
  by (auto simp: text_too_long_def RequireText_def getitem_text_contains
           split: sum.splits)

lemma RequireAuth_anonymous:
  "current_user w = None \<Longrightarrow>
   RequireAuth view_function w request_data args = Some (Returns NOT_AUTHENTICATED_RESPONSE w)"
  by (simp add: RequireAuth_def)

lemma RequireAuth_authenticated:
  "current_user w \<noteq> None \<Longrightarrow>
   RequireAuth view_function w request_data args = view_function w request_data args"
  by (auto simp: RequireAuth_def)

lemma Logout_route_leaves_anonymous:
  "Logout_route w0 rd0 a = Some (Returns r w) \<Longrightarrow> current_user w = None"
  by (auto simp: Logout_route_def JsonView_def RequireAuth_def Logout_def split: if_splits)

subsection \<open>Requests without an authenticated user\<close>

text \<open>
  Claim C5. A request to an endpoint behind \<open>_RequireAuth\<close> (Logout, CreateDocument,
  GetDocument, SaveDocument, DeleteDocument) made while the current user is not
  authenticated, in particular in the world any call of Logout leaves, is answered with
  the fixed not-authenticated response and leaves the world as it was. The answer is the
  same for every wrapped view (first conjunct), so the wrapped view is not run.
\<close>

theorem unauthenticated_request_not_authenticated:
  assumes "current_user w = None \<or> (\<exists>w0 rd0 r. Logout_route w0 rd0 () = Some (Returns r w))"
  shows "RequireAuth view_function w request_data args =
           Some (Returns NOT_AUTHENTICATED_RESPONSE w)
       \<and> Logout_route w request_data () = Some (Returns NOT_AUTHENTICATED_RESPONSE w)
       \<and> CreateDocument_route env ids w request_data () =
           Some (Returns NOT_AUTHENTICATED_RESPONSE w)
       \<and> GetDocument_route env w request_data doc_id =
           Some (Returns NOT_AUTHENTICATED_RESPONSE w)
       \<and> SaveDocument_route env w request_data doc_id =
           Some (Returns NOT_AUTHENTICATED_RESPONSE w)
       \<and> DeleteDocument_route env w request_data doc_id =
           Some (Returns NOT_AUTHENTICATED_RESPONSE w)"
proof -
  from assms have anon: "current_user w = None"
    using Logout_route_leaves_anonymous by blast
  show ?thesis
    by (simp add: route_defs RequireAuth_anonymous [OF anon])
qed

text \<open>Bob logs out; every gated endpoint then refuses the anonymous session.\<close>

theorem unauthenticated_request_not_authenticated_witness:
  "Logout_route bob_world JNull () =
     Some (Returns SUCCESS_RESPONSE anonymous_world)
   \<and> Logout_route anonymous_world (JObj [(''text'', JStr ''hi'')]) () =
       Some (Returns NOT_AUTHENTICATED_RESPONSE anonymous_world)
   \<and> CreateDocument_route example_env example_ids anonymous_world
         (JObj [(''text'', JStr ''hi'')]) () =
       Some (Returns NOT_AUTHENTICATED_RESPONSE anonymous_world)
   \<and> GetDocument_route example_env anonymous_world (JObj [(''text'', JStr ''hi'')]) ''d1'' =
       Some (Returns NOT_AUTHENTICATED_RESPONSE anonymous_world)
   \<and> SaveDocument_route example_env anonymous_world (JObj [(''text'', JStr ''hi'')]) ''d1'' =
       Some (Returns NOT_AUTHENTICATED_RESPONSE anonymous_world)
   \<and> DeleteDocument_route example_env anonymous_world (JObj [(''text'', JStr ''hi'')]) ''d1'' =
       Some (Returns NOT_AUTHENTICATED_RESPONSE anonymous_world)"
proof -
  have out: "Logout_route bob_world JNull () = Some (Returns SUCCESS_RESPONSE anonymous_world)"
    by (simp add: Logout_route_def JsonView_def RequireAuth_def Logout_def bob_world_def
                  anonymous_world_def)
  then have "current_user anonymous_world = None
      \<or> (\<exists>w0 rd0 r. Logout_route w0 rd0 () = Some (Returns r anonymous_world))"
    by blast
  from unauthenticated_request_not_authenticated
         [OF this, where env = example_env and ids = example_ids
            and view_function = Logout and args = "()"
            and request_data = "JObj [(''text'', JStr ''hi'')]" and doc_id = "''d1''"]
       out
  show ?thesis
    by simp
qed

lemmas example_defs =
  example_env_def alice_def bob_def bobs_document_def example_db_def anonymous_world_def
  alice_world_def bob_world_def example_ids_def

lemmas response_defs =
  SUCCESS_RESPONSE_def INVALID_REQUEST_RESPONSE_def NOT_AUTHENTICATED_RESPONSE_def
  INVALID_DOCUMENT_ID_RESPONSE_def INVALID_TOKEN_RESPONSE_def

subsection \<open>Oversized text\<close>

text \<open>
  Claim C3, as the code has it. A request whose \<open>text\<close> is longer than
  \<open>MAX_SOURCE_TEXT_SIZE\<close> is answered with the fixed invalid-request response, whatever
  the wrapped view is (so the view is not run), by AsciiDocToHtml for every session, and
  by CreateDocument and SaveDocument when the current user is authenticated: there
  \<open>_RequireAuth\<close> is applied before \<open>_RequireText\<close>.
\<close>

theorem oversized_text_invalid_request:
  assumes "text_too_long env request_data"
  shows "RequireText env view_function w request_data args =
           Some (Returns INVALID_REQUEST_RESPONSE w)
       \<and> AsciiDocToHtml_route env w request_data () =
           Some (Returns INVALID_REQUEST_RESPONSE w)
       \<and> (current_user w \<noteq> None \<longrightarrow>
            CreateDocument_route env ids w request_data () =
              Some (Returns INVALID_REQUEST_RESPONSE w)
          \<and> SaveDocument_route env w request_data doc_id =
              Some (Returns INVALID_REQUEST_RESPONSE w))"
  using assms
  by (simp add: route_defs RequireText_too_long RequireAuth_authenticated)

theorem oversized_text_invalid_request_witness:
  "text_too_long example_env (JObj [(''text'', JStr ''far too long'')])
   \<and> current_user alice_world \<noteq> None
   \<and> AsciiDocToHtml_route example_env alice_world (JObj [(''text'', JStr ''far too long'')]) () =
       Some (Returns INVALID_REQUEST_RESPONSE alice_world)
   \<and> CreateDocument_route example_env example_ids alice_world
         (JObj [(''text'', JStr ''far too long'')]) () =
       Some (Returns INVALID_REQUEST_RESPONSE alice_world)
   \<and> SaveDocument_route example_env alice_world (JObj [(''text'', JStr ''far too long'')]) ''d1'' =
       Some (Returns INVALID_REQUEST_RESPONSE alice_world)"
proof -
  have long: "text_too_long example_env (JObj [(''text'', JStr ''far too long'')])"
    by (simp add: text_too_long_def example_env_def)
  have user: "current_user alice_world \<noteq> None"
    by (simp add: alice_world_def)
  from oversized_text_invalid_request
         [OF long, where w = alice_world and ids = example_ids and doc_id = "''d1''"
            and view_function = Logout and args = "()"]
       long user
  show ?thesis
    by simp
qed

text \<open>
  The claim as stated fails for a request without an authenticated user: CreateDocument
  answers an oversized text with the not-authenticated response.
\<close>

theorem oversized_text_counterexample:
  "text_too_long example_env (JObj [(''text'', JStr ''far too long'')])
   \<and> CreateDocument_route example_env example_ids anonymous_world
         (JObj [(''text'', JStr ''far too long'')]) () =
       Some (Returns NOT_AUTHENTICATED_RESPONSE anonymous_world)
   \<and> CreateDocument_route example_env example_ids anonymous_world
         (JObj [(''text'', JStr ''far too long'')]) () \<noteq>
       Some (Returns INVALID_REQUEST_RESPONSE anonymous_world)"
  by (simp add: text_too_long_def example_env_def CreateDocument_route_def JsonView_def
                RequireAuth_def anonymous_world_def response_defs)

subsection \<open>The renderer's result\<close>



subsection \<open>Documents that do not exist, and documents of others\<close>

lemma GetDocument_missing:
  "UserDocument_Get env doc_id (db w) = None \<Longrightarrow>
   GetDocument env w request_data doc_id = Some (Returns INVALID_DOCUMENT_ID_RESPONSE w)"
  by (simp add: GetDocument_def)

lemma SaveDocument_missing:
  "UserDocument_Get env doc_id (db w) = None \<Longrightarrow>
   SaveDocument env w request_data doc_id = Some (Returns INVALID_DOCUMENT_ID_RESPONSE w)"
  by (simp add: SaveDocument_def)

lemma DeleteDocument_missing:
  "UserDocument_Get env doc_id (db w) = None \<Longrightarrow>
   DeleteDocument env w request_data doc_id = Some (Returns INVALID_DOCUMENT_ID_RESPONSE w)"
  by (simp add: DeleteDocument_def)

lemma GetDocument_unreadable:
  "UserDocument_Get env doc_id (db w) = Some d \<Longrightarrow>
   \<not> IsReadableByUser env d (current_user w) \<Longrightarrow>
   GetDocument env w request_data doc_id = Some (Returns NOT_AUTHENTICATED_RESPONSE w)"
  by (simp add: GetDocument_def)

lemma SaveDocument_unwritable:
  "UserDocument_Get env doc_id (db w) = Some d \<Longrightarrow>
   \<not> IsWritableByUser env d (current_user w) \<Longrightarrow>
   SaveDocument env w request_data doc_id = Some (Returns NOT_AUTHENTICATED_RESPONSE w)"
  by (simp add: SaveDocument_def)

lemma DeleteDocument_unwritable:
  "UserDocument_Get env doc_id (db w) = Some d \<Longrightarrow>
   \<not> IsWritableByUser env d (current_user w) \<Longrightarrow>
   DeleteDocument env w request_data doc_id = Some (Returns NOT_AUTHENTICATED_RESPONSE w)"
  by (simp add: DeleteDocument_def)

text \<open>
  Claim C7, as the code has it. For an authenticated request with an identifier the store
  has no document for, GetDocument and DeleteDocument answer with the fixed
  invalid-document-ID response; SaveDocument does so when the request's text passes
  \<open>_RequireText\<close>, which is applied before the view looks the document up. The view
  \<open>SaveDocument\<close> itself (last conjunct) answers so for every body.
\<close>

theorem missing_document_invalid_document_id:
  assumes "current_user w \<noteq> None"
    and "UserDocument_Get env doc_id (db w) = None"
  shows "GetDocument_route env w request_data doc_id =
           Some (Returns INVALID_DOCUMENT_ID_RESPONSE w)
       \<and> DeleteDocument_route env w request_data doc_id =
           Some (Returns INVALID_DOCUMENT_ID_RESPONSE w)
       \<and> (text_accepted env request_data \<longrightarrow>
            SaveDocument_route env w request_data doc_id =
              Some (Returns INVALID_DOCUMENT_ID_RESPONSE w))
       \<and> SaveDocument env w request_data doc_id =
           Some (Returns INVALID_DOCUMENT_ID_RESPONSE w)"
  using assms
  by (simp add: route_defs RequireAuth_authenticated RequireText_accepted
                GetDocument_missing SaveDocument_missing DeleteDocument_missing)

theorem missing_document_invalid_document_id_witness:
  "current_user alice_world \<noteq> None
   \<and> UserDocument_Get example_env ''nope'' (db alice_world) = None
   \<and> text_accepted example_env (JObj [(''text'', JStr ''hi'')])
   \<and> GetDocument_route example_env alice_world (JObj [(''text'', JStr ''hi'')]) ''nope'' =
       Some (Returns INVALID_DOCUMENT_ID_RESPONSE alice_world)
   \<and> DeleteDocument_route example_env alice_world (JObj [(''text'', JStr ''hi'')]) ''nope'' =
       Some (Returns INVALID_DOCUMENT_ID_RESPONSE alice_world)
   \<and> SaveDocument_route example_env alice_world (JObj [(''text'', JStr ''hi'')]) ''nope'' =
       Some (Returns INVALID_DOCUMENT_ID_RESPONSE alice_world)"
proof -
  have user: "current_user alice_world \<noteq> None"
    by (simp add: alice_world_def)
  have none: "UserDocument_Get example_env ''nope'' (db alice_world) = None"
    by (simp add: example_defs)
  have accepted: "text_accepted example_env (JObj [(''text'', JStr ''hi'')])"
    by (simp add: text_accepted_def example_env_def)
  from missing_document_invalid_document_id
         [OF user none, where request_data = "JObj [(''text'', JStr ''hi'')]"]
       user none accepted
  show ?thesis
    by simp
qed

text \<open>
  The claim as stated fails for SaveDocument: an authenticated request without a \<open>text\<close>,
  for an identifier the store has no document for, gets the invalid-request response.
\<close>

theorem missing_document_counterexample:
  "current_user alice_world \<noteq> None
   \<and> UserDocument_Get example_env ''nope'' (db alice_world) = None
   \<and> SaveDocument_route example_env alice_world (JObj []) ''nope'' =
       Some (Returns INVALID_REQUEST_RESPONSE alice_world)
   \<and> SaveDocument_route example_env alice_world (JObj []) ''nope'' \<noteq>
       Some (Returns INVALID_DOCUMENT_ID_RESPONSE alice_world)"
  by (simp add: example_defs SaveDocument_route_def JsonView_def RequireAuth_def
                RequireText_def response_defs)

text \<open>
  Claim C9, as the code has it. In the three views the lookup comes before the permission
  test. For an authenticated request: an identifier without a document gets the
  invalid-document-ID response whoever asks, and a document the requester may not read
  (GetDocument) or write (DeleteDocument, SaveDocument) gets the not-authenticated
  response; for SaveDocument both hold of requests whose text passes \<open>_RequireText\<close>.
  The two responses differ, so GetDocument and DeleteDocument tell an authenticated user
  whether an identifier exists.
\<close>

theorem lookup_before_permission:
  assumes "current_user w \<noteq> None"
  shows "(UserDocument_Get env doc_id (db w) = None \<longrightarrow>
            GetDocument_route env w request_data doc_id =
              Some (Returns INVALID_DOCUMENT_ID_RESPONSE w)
          \<and> DeleteDocument_route env w request_data doc_id =
              Some (Returns INVALID_DOCUMENT_ID_RESPONSE w)
          \<and> (text_accepted env request_data \<longrightarrow>
               SaveDocument_route env w request_data doc_id =
                 Some (Returns INVALID_DOCUMENT_ID_RESPONSE w)))
       \<and> (UserDocument_Get env doc_id (db w) = Some d \<longrightarrow>
            (\<not> IsReadableByUser env d (current_user w) \<longrightarrow>
               GetDocument_route env w request_data doc_id =
                 Some (Returns NOT_AUTHENTICATED_RESPONSE w))
          \<and> (\<not> IsWritableByUser env d (current_user w) \<longrightarrow>
               DeleteDocument_route env w request_data doc_id =
                 Some (Returns NOT_AUTHENTICATED_RESPONSE w)
             \<and> (text_accepted env request_data \<longrightarrow>
                  SaveDocument_route env w request_data doc_id =
                    Some (Returns NOT_AUTHENTICATED_RESPONSE w))))
       \<and> INVALID_DOCUMENT_ID_RESPONSE \<noteq> NOT_AUTHENTICATED_RESPONSE"
  using assms
  by (simp add: route_defs RequireAuth_authenticated RequireText_accepted
                GetDocument_missing SaveDocument_missing DeleteDocument_missing
                GetDocument_unreadable SaveDocument_unwritable DeleteDocument_unwritable
                response_defs)

theorem lookup_before_permission_witness:
  "current_user alice_world \<noteq> None
   \<and> UserDocument_Get example_env ''nope'' (db alice_world) = None
   \<and> UserDocument_Get example_env ''d1'' (db alice_world) = Some bobs_document
   \<and> \<not> IsReadableByUser example_env bobs_document (current_user alice_world)
   \<and> \<not> IsWritableByUser example_env bobs_document (current_user alice_world)
   \<and> text_accepted example_env (JObj [(''text'', JStr ''hi'')])
   \<and> GetDocument_route example_env alice_world (JObj [(''text'', JStr ''hi'')]) ''nope'' =
       Some (Returns INVALID_DOCUMENT_ID_RESPONSE alice_world)
   \<and> DeleteDocument_route example_env alice_world (JObj [(''text'', JStr ''hi'')]) ''nope'' =
       Some (Returns INVALID_DOCUMENT_ID_RESPONSE alice_world)
   \<and> SaveDocument_route example_env alice_world (JObj [(''text'', JStr ''hi'')]) ''nope'' =
       Some (Returns INVALID_DOCUMENT_ID_RESPONSE alice_world)
   \<and> GetDocument_route example_env alice_world (JObj [(''text'', JStr ''hi'')]) ''d1'' =
       Some (Returns NOT_AUTHENTICATED_RESPONSE alice_world)
   \<and> DeleteDocument_route example_env alice_world (JObj [(''text'', JStr ''hi'')]) ''d1'' =
       Some (Returns NOT_AUTHENTICATED_RESPONSE alice_world)
   \<and> SaveDocument_route example_env alice_world (JObj [(''text'', JStr ''hi'')]) ''d1'' =
       Some (Returns NOT_AUTHENTICATED_RESPONSE alice_world)"
proof -
  have user: "current_user alice_world \<noteq> None"
    by (simp add: alice_world_def)
  have none: "UserDocument_Get example_env ''nope'' (db alice_world) = None"
    by (simp add: example_defs)
  have some: "UserDocument_Get example_env ''d1'' (db alice_world) = Some bobs_document"
    by (simp add: example_defs)
  have unreadable: "\<not> IsReadableByUser example_env bobs_document (current_user alice_world)"
    by (simp add: example_defs)
  have unwritable: "\<not> IsWritableByUser example_env bobs_document (current_user alice_world)"
    by (simp add: example_defs)
  have accepted: "text_accepted example_env (JObj [(''text'', JStr ''hi'')])"
    by (simp add: text_accepted_def example_env_def)
  from lookup_before_permission
         [OF user, where env = example_env and doc_id = "''nope''" and d = bobs_document
            and request_data = "JObj [(''text'', JStr ''hi'')]"]
       lookup_before_permission
         [OF user, where env = example_env and doc_id = "''d1''" and d = bobs_document
            and request_data = "JObj [(''text'', JStr ''hi'')]"]
       user none some unreadable unwritable accepted
  show ?thesis
    by simp
qed

text \<open>
  The claim as stated fails for SaveDocument: an authenticated request with an oversized
  text, for a document the requester may not write, gets the invalid-request response.
\<close>

theorem lookup_before_permission_counterexample:
  "current_user alice_world \<noteq> None
   \<and> UserDocument_Get example_env ''d1'' (db alice_world) = Some bobs_document
   \<and> \<not> IsWritableByUser example_env bobs_document (current_user alice_world)
   \<and> SaveDocument_route example_env alice_world
         (JObj [(''text'', JStr ''far too long'')]) ''d1'' =
       Some (Returns INVALID_REQUEST_RESPONSE alice_world)
   \<and> SaveDocument_route example_env alice_world
         (JObj [(''text'', JStr ''far too long'')]) ''d1'' \<noteq>
       Some (Returns NOT_AUTHENTICATED_RESPONSE alice_world)"
  by (simp add: example_defs SaveDocument_route_def JsonView_def RequireAuth_def
                RequireText_def response_defs)

subsection \<open>Permissions\<close>

lemma RequireText_cases:
  "RequireText env view_function w request_data args = Some (Returns r w') \<Longrightarrow>
   (r = INVALID_REQUEST_RESPONSE \<and> w' = w)
   \<or> view_function w request_data args = Some (Returns r w')"
  by (auto simp: RequireText_def split: sum.splits bool.splits if_splits)

lemma RequireAuth_cases:
  "RequireAuth view_function w request_data args = Some (Returns r w') \<Longrightarrow>
   (r = NOT_AUTHENTICATED_RESPONSE \<and> w' = w)
   \<or> view_function w request_data args = Some (Returns r w')"
  by (auto simp: RequireAuth_def split: if_splits)

lemma success_of_stock [simp]:
  "success_of SUCCESS_RESPONSE = Some True"
  "success_of INVALID_REQUEST_RESPONSE = Some False"
  "success_of NOT_AUTHENTICATED_RESPONSE = Some False"
  "success_of INVALID_DOCUMENT_ID_RESPONSE = Some False"
  "success_of INVALID_TOKEN_RESPONSE = Some False"
  by (simp_all add: response_defs)

text \<open>
  Claim C2. For an authenticated request that names an existing document: GetDocument
  answers with the document exactly when \<open>IsReadableByUser\<close> holds of the current user,
  and with the not-authenticated response otherwise. When \<open>IsWritableByUser\<close> does not
  hold, the views SaveDocument and DeleteDocument answer with the not-authenticated
  response and leave the world as it was; the route of SaveDocument then is
  \<open>_RequireText\<close> around a view that only refuses, so \<open>save\<close> is not called, and
  whatever response it returns is a failure and the world is unchanged.
\<close>

theorem access_needs_permission:
  assumes "current_user w \<noteq> None"
    and "UserDocument_Get env doc_id (db w) = Some d"
  shows "GetDocument_route env w request_data doc_id =
           (if IsReadableByUser env d (current_user w)
            then Some (Returns (JObj (AList.update ''success'' (JBool True) (toJson env d))) w)
            else Some (Returns NOT_AUTHENTICATED_RESPONSE w))
       \<and> (\<not> IsWritableByUser env d (current_user w) \<longrightarrow>
            DeleteDocument_route env w request_data doc_id =
              Some (Returns NOT_AUTHENTICATED_RESPONSE w)
          \<and> SaveDocument env w request_data doc_id =
              Some (Returns NOT_AUTHENTICATED_RESPONSE w)
          \<and> SaveDocument_route env w request_data doc_id =
              RequireText env (\<lambda>w' request_data' doc_id'. Some (Returns NOT_AUTHENTICATED_RESPONSE w))
                w request_data doc_id
          \<and> (SaveDocument_route env w request_data doc_id = Some (Returns r w') \<longrightarrow>
               success_of r = Some False \<and> w' = w))"
proof -
  have get: "GetDocument_route env w request_data doc_id =
           (if IsReadableByUser env d (current_user w)
            then Some (Returns (JObj (AList.update ''success'' (JBool True) (toJson env d))) w)
            else Some (Returns NOT_AUTHENTICATED_RESPONSE w))"
    using assms by (simp add: route_defs RequireAuth_authenticated GetDocument_def)
  have del: "DeleteDocument_route env w request_data doc_id =
              Some (Returns NOT_AUTHENTICATED_RESPONSE w)"
    if "\<not> IsWritableByUser env d (current_user w)"
    using assms that
    by (simp add: route_defs RequireAuth_authenticated DeleteDocument_unwritable)
  have save: "SaveDocument env w request_data' doc_id =
              Some (Returns NOT_AUTHENTICATED_RESPONSE w)"
    if "\<not> IsWritableByUser env d (current_user w)" for request_data'
    using assms that by (simp add: SaveDocument_unwritable)
  have route: "SaveDocument_route env w request_data doc_id =
              RequireText env (\<lambda>w' request_data' doc_id'. Some (Returns NOT_AUTHENTICATED_RESPONSE w))
                w request_data doc_id"
    if "\<not> IsWritableByUser env d (current_user w)"
    using assms(1) save [OF that]
    by (simp add: route_defs RequireAuth_authenticated RequireText_def
             split: sum.splits bool.splits)
  have fail: "success_of r = Some False \<and> w' = w"
    if "\<not> IsWritableByUser env d (current_user w)"
      and "SaveDocument_route env w request_data doc_id = Some (Returns r w')"
  proof -
    from route [OF that(1)] that(2)
    have "RequireText env (\<lambda>w' request_data' doc_id'. Some (Returns NOT_AUTHENTICATED_RESPONSE w))
            w request_data doc_id = Some (Returns r w')"
      by simp
    from RequireText_cases [OF this] show ?thesis
      by auto
  qed
  from get del save route fail show ?thesis
    by blast
qed

theorem access_needs_permission_witness:
  "current_user alice_world \<noteq> None
   \<and> UserDocument_Get example_env ''d1'' (db alice_world) = Some bobs_document
   \<and> \<not> IsReadableByUser example_env bobs_document (current_user alice_world)
   \<and> \<not> IsWritableByUser example_env bobs_document (current_user alice_world)
   \<and> GetDocument_route example_env alice_world (JObj [(''text'', JStr ''mine'')]) ''d1'' =
       Some (Returns NOT_AUTHENTICATED_RESPONSE alice_world)
   \<and> DeleteDocument_route example_env alice_world (JObj [(''text'', JStr ''mine'')]) ''d1'' =
       Some (Returns NOT_AUTHENTICATED_RESPONSE alice_world)
   \<and> SaveDocument_route example_env alice_world (JObj [(''text'', JStr ''mine'')]) ''d1'' =
       Some (Returns NOT_AUTHENTICATED_RESPONSE alice_world)
   \<and> success_of NOT_AUTHENTICATED_RESPONSE = Some False"
proof -
  have user: "current_user alice_world \<noteq> None"
    by (simp add: alice_world_def)
  have some: "UserDocument_Get example_env ''d1'' (db alice_world) = Some bobs_document"
    by (simp add: example_defs)
  have unreadable: "\<not> IsReadableByUser example_env bobs_document (current_user alice_world)"
    by (simp add: example_defs)
  have unwritable: "\<not> IsWritableByUser example_env bobs_document (current_user alice_world)"
    by (simp add: example_defs)
  have accepted: "text_accepted example_env (JObj [(''text'', JStr ''mine'')])"
    by (simp add: text_accepted_def example_env_def)
  note inst = access_needs_permission
         [OF user some, where request_data = "JObj [(''text'', JStr ''mine'')]"
            and r = NOT_AUTHENTICATED_RESPONSE and w' = alice_world]
  from inst unreadable unwritable
  have "GetDocument_route example_env alice_world (JObj [(''text'', JStr ''mine'')]) ''d1'' =
          Some (Returns NOT_AUTHENTICATED_RESPONSE alice_world)"
    and "DeleteDocument_route example_env alice_world (JObj [(''text'', JStr ''mine'')]) ''d1'' =
          Some (Returns NOT_AUTHENTICATED_RESPONSE alice_world)"
    and "SaveDocument_route example_env alice_world (JObj [(''text'', JStr ''mine'')]) ''d1'' =
          Some (Returns NOT_AUTHENTICATED_RESPONSE alice_world)"
    by (simp_all add: RequireText_accepted [OF accepted])
  with inst user some unreadable unwritable show ?thesis
    by simp
qed

subsection \<open>Failure leaves the store alone\<close>

lemma SaveDocument_failure_unchanged:
  "SaveDocument env w request_data doc_id = Some (Returns r w') \<Longrightarrow>
   success_of r = Some False \<Longrightarrow> w' = w"
  by (auto simp: SaveDocument_def split: option.splits if_splits sum.splits)

lemma DeleteDocument_failure_unchanged:
  "DeleteDocument env w request_data doc_id = Some (Returns r w') \<Longrightarrow>
   success_of r = Some False \<Longrightarrow> w' = w"
  by (auto simp: DeleteDocument_def split: option.splits if_splits)

text \<open>
  Claim C10. Whenever SaveDocument or DeleteDocument, as a route or as the bare view,
  returns a failure response, the world it leaves is the world it found: the database
  (and the session) are unchanged.
\<close>

theorem failure_leaves_store_unchanged:
  assumes "SaveDocument_route env w request_data doc_id = Some (Returns r w')
         \<or> DeleteDocument_route env w request_data doc_id = Some (Returns r w')
         \<or> SaveDocument env w request_data doc_id = Some (Returns r w')
         \<or> DeleteDocument env w request_data doc_id = Some (Returns r w')"
    and "success_of r = Some False"
  shows "w' = w \<and> db w' = db w"
proof -
  have "w' = w"
    using assms
    by (auto simp: route_defs
             dest!: RequireAuth_cases RequireText_cases
             dest: SaveDocument_failure_unchanged DeleteDocument_failure_unchanged)
  then show ?thesis by simp
qed

text \<open>Bob saves his own document with a visibility the store refuses.\<close>

theorem failure_leaves_store_unchanged_witness:
  "SaveDocument_route example_env bob_world
       (JObj [(''text'', JStr ''hi''), (''visibility'', JStr ''bogus'')]) ''d1'' =
     Some (Returns INVALID_REQUEST_RESPONSE bob_world)
   \<and> success_of INVALID_REQUEST_RESPONSE = Some False
   \<and> db bob_world = db bob_world"
proof -
  have run: "SaveDocument_route example_env bob_world
       (JObj [(''text'', JStr ''hi''), (''visibility'', JStr ''bogus'')]) ''d1'' =
     Some (Returns INVALID_REQUEST_RESPONSE bob_world)"
    by (simp add: example_defs SaveDocument_route_def JsonView_def RequireAuth_def
                  RequireText_def SaveDocument_def)
  have fail: "success_of INVALID_REQUEST_RESPONSE = Some False"
    by simp
  from failure_leaves_store_unchanged [OF disjI1 [OF run] fail] run fail show ?thesis
    by simp
qed

subsection \<open>Creating a document\<close>

lemma CreateDocument_loop_document_id:
  "CreateDocument_loop env w (document\<lparr>document_id := x\<rparr>) ids n =
   CreateDocument_loop env w document ids n"
  by (subst (1 2) CreateDocument_loop.simps) (simp split: sum.splits)

lemma CreateDocument_loop_collision:
  "document_save env (document\<lparr>document_id := ids n\<rparr>) (db w) = Inl NotUniqueError \<Longrightarrow>
   CreateDocument_loop env w document ids n = CreateDocument_loop env w document ids (Suc n)"
  by (subst CreateDocument_loop.simps) (simp add: CreateDocument_loop_document_id)

lemma CreateDocument_loop_saved:
  "document_save env (document\<lparr>document_id := ids n\<rparr>) (db w) = Inr db' \<Longrightarrow>
   CreateDocument_loop env w document ids n =
     Some (Returns (JObj [(''success'', JBool True), (''document_id'', JStr (ids n))])
            (w\<lparr>db := db'\<rparr>))"
  by (subst CreateDocument_loop.simps) simp

lemma CreateDocument_loop_invalid:
  "document_save env (document\<lparr>document_id := ids n\<rparr>) (db w) = Inl ValidationError \<Longrightarrow>
   CreateDocument_loop env w document ids n = Some (Returns INVALID_REQUEST_RESPONSE w)"
  by (subst CreateDocument_loop.simps) simp

lemma CreateDocument_loop_skip:
  "\<forall>k<n. document_save env (document\<lparr>document_id := ids k\<rparr>) (db w) = Inl NotUniqueError \<Longrightarrow>
   CreateDocument_loop env w document ids 0 = CreateDocument_loop env w document ids n"
proof (induction n)
  case 0
  show ?case by simp
next
  case (Suc n)
  then have "CreateDocument_loop env w document ids 0 = CreateDocument_loop env w document ids n"
    by simp
  also have "\<dots> = CreateDocument_loop env w document ids (Suc n)"
    using Suc.prems by (simp add: CreateDocument_loop_collision)
  finally show ?case .
qed

text \<open>
  Claim C1. An authenticated create request with an accepted text, for which the first
  \<open>n\<close> saves raise the uniqueness violation: when the next save succeeds, CreateDocument
  returns the success response that carries the identifier of that save, and the
  database is the one that save wrote; when the next save raises a validation error,
  CreateDocument returns the fixed invalid-request response and the world is unchanged.
  In both cases the handler returns.
\<close>

theorem CreateDocument_retries_until_saved:
  assumes "current_user w \<noteq> None"
    and "text_accepted env request_data"
    and "document = FromJson env ((UserDocument env)\<lparr>owner := current_user w\<rparr>) request_data"
    and "\<forall>k<n. document_save env (document\<lparr>document_id := ids k\<rparr>) (db w) = Inl NotUniqueError"
  shows "(document_save env (document\<lparr>document_id := ids n\<rparr>) (db w) = Inr db' \<longrightarrow>
            CreateDocument_route env ids w request_data () =
              Some (Returns
                (JObj [(''success'', JBool True), (''document_id'', JStr (ids n))])
                (w\<lparr>db := db'\<rparr>)))
       \<and> (document_save env (document\<lparr>document_id := ids n\<rparr>) (db w) = Inl ValidationError \<longrightarrow>
            CreateDocument_route env ids w request_data () =
              Some (Returns INVALID_REQUEST_RESPONSE w))"
proof -
  have "CreateDocument_route env ids w request_data () =
          CreateDocument_loop env w document ids 0"
    using assms(1-3)
    by (simp add: CreateDocument_route_def JsonView_def RequireAuth_authenticated
                  RequireText_accepted CreateDocument_def)
  also have "\<dots> = CreateDocument_loop env w document ids n"
    using assms(4) by (rule CreateDocument_loop_skip)
  finally show ?thesis
    by (simp add: CreateDocument_loop_saved CreateDocument_loop_invalid)
qed

text \<open>
  Alice creates a document: the first identifier is taken, the second is saved. With a
  visibility the store refuses, the first save already ends the request.
\<close>

theorem CreateDocument_retries_until_saved_witness:
  "CreateDocument_route example_env example_ids alice_world (JObj [(''text'', JStr ''hi'')]) () =
     Some (Returns
       (JObj [(''success'', JBool True), (''document_id'', JStr ''d2'')])
       \<lparr>current_user = Some alice,
        db = [(''d1'', bobs_document),
              (''d2'', \<lparr>document_id = ''d2'', owner = Some alice,
                        content = [(''text'', JStr ''hi'')]\<rparr>)]\<rparr>)
   \<and> CreateDocument_route example_env example_ids alice_world
         (JObj [(''text'', JStr ''hi''), (''visibility'', JStr ''bogus'')]) () =
       Some (Returns INVALID_REQUEST_RESPONSE alice_world)"
proof -
  have user: "current_user alice_world \<noteq> None"
    by (simp add: alice_world_def)
  have accepted: "text_accepted example_env (JObj [(''text'', JStr ''hi'')])"
    by (simp add: text_accepted_def example_env_def)
  have accepted': "text_accepted example_env
      (JObj [(''text'', JStr ''hi''), (''visibility'', JStr ''bogus'')])"
    by (simp add: text_accepted_def example_env_def)
  have collide: "\<forall>k<1. document_save example_env
      ((FromJson example_env ((UserDocument example_env)\<lparr>owner := current_user alice_world\<rparr>)
          (JObj [(''text'', JStr ''hi'')]))\<lparr>document_id := example_ids k\<rparr>) (db alice_world)
      = Inl NotUniqueError"
    by (simp add: example_defs)
  have none: "\<forall>k<0. document_save example_env
      ((FromJson example_env ((UserDocument example_env)\<lparr>owner := current_user alice_world\<rparr>)
          (JObj [(''text'', JStr ''hi''), (''visibility'', JStr ''bogus'')]))
        \<lparr>document_id := example_ids k\<rparr>) (db alice_world)
      = Inl NotUniqueError"
    by simp
  have saved: "document_save example_env
      ((FromJson example_env ((UserDocument example_env)\<lparr>owner := current_user alice_world\<rparr>)
          (JObj [(''text'', JStr ''hi'')]))\<lparr>document_id := example_ids 1\<rparr>) (db alice_world)
      = Inr [(''d1'', bobs_document),
              (''d2'', \<lparr>document_id = ''d2'', owner = Some alice,
                        content = [(''text'', JStr ''hi'')]\<rparr>)]"
    by (simp add: example_defs)
  have invalid: "document_save example_env
      ((FromJson example_env ((UserDocument example_env)\<lparr>owner := current_user alice_world\<rparr>)
          (JObj [(''text'', JStr ''hi''), (''visibility'', JStr ''bogus'')]))
        \<lparr>document_id := example_ids 0\<rparr>) (db alice_world)
      = Inl ValidationError"
    by (simp add: example_defs)
  have second: "example_ids 1 = ''d2''"
    by (simp add: example_ids_def)
  from CreateDocument_retries_until_saved [OF user accepted refl collide] saved
  have created: "CreateDocument_route example_env example_ids alice_world
         (JObj [(''text'', JStr ''hi'')]) () =
       Some (Returns
         (JObj [(''success'', JBool True), (''document_id'', JStr (example_ids 1))])
         (alice_world\<lparr>db := [(''d1'', bobs_document),
              (''d2'', \<lparr>document_id = ''d2'', owner = Some alice,
                        content = [(''text'', JStr ''hi'')]\<rparr>)]\<rparr>))"
    by blast
  from CreateDocument_retries_until_saved [OF user accepted' refl none] invalid
  have refused: "CreateDocument_route example_env example_ids alice_world
         (JObj [(''text'', JStr ''hi''), (''visibility'', JStr ''bogus'')]) () =
       Some (Returns INVALID_REQUEST_RESPONSE alice_world)"
    by blast
  have "alice_world\<lparr>db := [(''d1'', bobs_document),
              (''d2'', \<lparr>document_id = ''d2'', owner = Some alice,
                        content = [(''text'', JStr ''hi'')]\<rparr>)]\<rparr> =
       \<lparr>current_user = Some alice,
        db = [(''d1'', bobs_document),
              (''d2'', \<lparr>document_id = ''d2'', owner = Some alice,
                        content = [(''text'', JStr ''hi'')]\<rparr>)]\<rparr>"
    by (simp add: alice_world_def)
  with created refused second show ?thesis
    by simp
qed

subsection \<open>The shape of every response\<close>

lemma api_response_stock [simp]:
  "api_response SUCCESS_RESPONSE"
  "api_response INVALID_REQUEST_RESPONSE"
  "api_response NOT_AUTHENTICATED_RESPONSE"
  "api_response INVALID_DOCUMENT_ID_RESPONSE"
  "api_response INVALID_TOKEN_RESPONSE"
  by (simp_all add: api_response_def response_defs)

lemma api_response_success [simp]:
  "api_response (JObj ((''success'', JBool True) # kvs))"
  "api_response (JObj (AList.update ''success'' (JBool True) kvs))"
  "api_response (JObj [(''success'', JBool b), (''html'', h), (''error_message'', JStr s)])"
  by (simp_all add: api_response_def update_conv')

lemma Auth_account_response:
  "Auth_account env account_data = Inr (Inl r) \<Longrightarrow>
   r = INVALID_REQUEST_RESPONSE \<or> r = INVALID_TOKEN_RESPONSE"
  by (auto simp: Auth_account_def split: sum.splits if_splits)

lemma Auth_accounts_response:
  "Auth_accounts env account_list accounts = Inr (Inl r) \<Longrightarrow>
   r = INVALID_REQUEST_RESPONSE \<or> r = INVALID_TOKEN_RESPONSE"
proof (induction account_list arbitrary: accounts)
  case Nil
  then show ?case by simp
next
  case (Cons account_data rest)
  then show ?case
    by (auto split: sum.splits dest: Auth_account_response)
qed

lemma Auth_api_response:
  "Auth env w request_data args = Some (Returns r w') \<Longrightarrow> api_response r"
  by (auto simp: Auth_def
           split: sum.splits bool.splits json.splits if_splits prod.splits
           dest!: Auth_accounts_response)

lemma CreateDocument_loop_returns:
  assumes "CreateDocument_loop env w document ids n = Some y"
  shows "\<forall>r w'. y = Returns r w' \<longrightarrow> api_response r"
  by (rule CreateDocument_loop.raw_induct
        [where P = "\<lambda>env w document ids n y. \<forall>r w'. y = Returns r w' \<longrightarrow> api_response r",
         OF _ assms])
     (auto split: sum.splits if_splits)

lemma CreateDocument_loop_api_response:
  "CreateDocument_loop env w document ids n = Some (Returns r w') \<Longrightarrow> api_response r"
  using CreateDocument_loop_returns by blast

lemma GetDocument_api_response:
  "GetDocument env w request_data doc_id = Some (Returns r w') \<Longrightarrow> api_response r"
  by (auto simp: GetDocument_def split: option.splits if_splits)

lemma SaveDocument_api_response:
  "SaveDocument env w request_data doc_id = Some (Returns r w') \<Longrightarrow> api_response r"
  by (auto simp: SaveDocument_def split: option.splits if_splits sum.splits)

lemma DeleteDocument_api_response:
  "DeleteDocument env w request_data doc_id = Some (Returns r w') \<Longrightarrow> api_response r"
  by (auto simp: DeleteDocument_def split: option.splits if_splits)

lemma AsciiDocToHtml_api_response:
  "AsciiDocToHtml env w request_data args = Some (Returns r w') \<Longrightarrow> api_response r"
  by (auto simp: AsciiDocToHtml_def split: sum.splits prod.splits)

lemma Logout_api_response:
  "Logout w request_data args = Some (Returns r w') \<Longrightarrow> api_response r"
  by (auto simp: Logout_def)

text \<open>
  Every response that one of the seven JSON handlers returns is an object with a boolean
  \<open>success\<close> and, when \<open>success\<close> is false, a string \<open>error_message\<close>; the three
  stock failures have that shape, with \<open>success\<close> false and the fixed messages. This
  speaks of the requests that end in a response only.
\<close>

theorem responses_are_api_responses:
  assumes "AsciiDocToHtml_route env w request_data () = Some (Returns r w')
         \<or> Auth_route env w request_data () = Some (Returns r w')
         \<or> Logout_route w request_data () = Some (Returns r w')
         \<or> CreateDocument_route env ids w request_data () = Some (Returns r w')
         \<or> GetDocument_route env w request_data doc_id = Some (Returns r w')
         \<or> SaveDocument_route env w request_data doc_id = Some (Returns r w')
         \<or> DeleteDocument_route env w request_data doc_id = Some (Returns r w')"
  shows "(\<exists>b. success_of r = Some b)
       \<and> (success_of r = Some False \<longrightarrow> (\<exists>s. error_message_of r = Some s))
       \<and> success_of INVALID_REQUEST_RESPONSE = Some False
       \<and> error_message_of INVALID_REQUEST_RESPONSE = Some ''Invalid request''
       \<and> success_of NOT_AUTHENTICATED_RESPONSE = Some False
       \<and> error_message_of NOT_AUTHENTICATED_RESPONSE = Some ''Not authenticated''
       \<and> success_of INVALID_DOCUMENT_ID_RESPONSE = Some False
       \<and> error_message_of INVALID_DOCUMENT_ID_RESPONSE = Some ''Invalid document ID''"
proof -
  have "api_response r"
    using assms
    by (auto simp: route_defs CreateDocument_def
             dest!: RequireAuth_cases RequireText_cases
             dest: AsciiDocToHtml_api_response Auth_api_response Logout_api_response
                   CreateDocument_loop_api_response GetDocument_api_response
                   SaveDocument_api_response DeleteDocument_api_response)
  then have "(\<exists>b. success_of r = Some b)
       \<and> (success_of r = Some False \<longrightarrow> (\<exists>s. error_message_of r = Some s))"
    by (auto simp: api_response_def split: option.splits)
  then show ?thesis
    by (simp add: response_defs)
qed

text \<open>Bob reads his own document.\<close>

theorem responses_are_api_responses_witness:
  "GetDocument_route example_env bob_world JNull ''d1'' =
     Some (Returns
       (JObj [(''document_id'', JStr ''d1''), (''text'', JStr ''hi''),
              (''success'', JBool True)]) bob_world)
   \<and> success_of (JObj [(''document_id'', JStr ''d1''), (''text'', JStr ''hi''),
              (''success'', JBool True)]) = Some True"
proof -
  have run: "GetDocument_route example_env bob_world JNull ''d1'' =
     Some (Returns
       (JObj [(''document_id'', JStr ''d1''), (''text'', JStr ''hi''),
              (''success'', JBool True)]) bob_world)"
    by (simp add: example_defs GetDocument_route_def JsonView_def RequireAuth_def
                  GetDocument_def)
  then have "AsciiDocToHtml_route example_env bob_world JNull () = Some (Returns
       (JObj [(''document_id'', JStr ''d1''), (''text'', JStr ''hi''),
              (''success'', JBool True)]) bob_world)
         \<or> Auth_route example_env bob_world JNull () = Some (Returns
       (JObj [(''document_id'', JStr ''d1''), (''text'', JStr ''hi''),
              (''success'', JBool True)]) bob_world)
         \<or> Logout_route bob_world JNull () = Some (Returns
       (JObj [(''document_id'', JStr ''d1''), (''text'', JStr ''hi''),
              (''success'', JBool True)]) bob_world)
         \<or> CreateDocument_route example_env example_ids bob_world JNull () = Some (Returns
       (JObj [(''document_id'', JStr ''d1''), (''text'', JStr ''hi''),
              (''success'', JBool True)]) bob_world)
         \<or> GetDocument_route example_env bob_world JNull ''d1'' = Some (Returns
       (JObj [(''document_id'', JStr ''d1''), (''text'', JStr ''hi''),
              (''success'', JBool True)]) bob_world)
         \<or> SaveDocument_route example_env bob_world JNull ''d1'' = Some (Returns
       (JObj [(''document_id'', JStr ''d1''), (''text'', JStr ''hi''),
              (''success'', JBool True)]) bob_world)
         \<or> DeleteDocument_route example_env bob_world JNull ''d1'' = Some (Returns
       (JObj [(''document_id'', JStr ''d1''), (''text'', JStr ''hi''),
              (''success'', JBool True)]) bob_world)"
    by blast
  from responses_are_api_responses [OF this] run show ?thesis
    by simp
qed

text \<open>
  Claim C8 does not hold of the code: not every malformed request is surfaced as a JSON
  payload. \<open>_RequireText\<close> evaluates \<open>'text' not in request_data\<close> and
  \<open>len(request_data['text'])\<close> unguarded, so a body that is \<open>null\<close>, a body that is a
  list holding the string \<open>text\<close>, and a \<open>text\<close> that is a number all raise
  \<open>TypeError\<close>, on every endpoint that requires a text. The request then ends in the
  exception, which the framework answers with a transport-level error, and not in the
  invalid-request response that the decorator's docstring promises for a \<open>text\<close> that is
  not present.
\<close>

theorem malformed_body_raises:
  "AsciiDocToHtml_route example_env anonymous_world JNull () = Some (Raises TypeError)
   \<and> AsciiDocToHtml_route example_env anonymous_world (JObj [(''text'', JNum 5)]) () =
       Some (Raises TypeError)
   \<and> AsciiDocToHtml_route example_env anonymous_world (JList [JStr ''text'']) () =
       Some (Raises TypeError)
   \<and> CreateDocument_route example_env example_ids alice_world (JObj [(''text'', JNum 5)]) () =
       Some (Raises TypeError)
   \<and> SaveDocument_route example_env bob_world JNull ''d1'' = Some (Raises TypeError)"
  by (simp add: AsciiDocToHtml_route_def CreateDocument_route_def SaveDocument_route_def
                JsonView_def RequireAuth_def RequireText_def alice_world_def bob_world_def)

subsection \<open>Authentication\<close>

text \<open>
  What \<open>Auth\<close> does with the submitted accounts. The loop ends in the list of triples
  only when every element passed the turn of the loop; a response returned from inside
  the loop is one of the two failures, and the world is then the one the request found.
\<close>

lemma Auth_accounts_all_pass:
  "Auth_accounts env account_list accounts = Inr (Inr accounts') \<Longrightarrow>
   \<forall>account_data \<in> set account_list. \<exists>t. Auth_account env account_data = Inr (Inr t)"
proof (induction account_list arbitrary: accounts)
  case Nil
  then show ?case by simp
next
  case (Cons account_data rest)
  then show ?case
    by (auto split: sum.splits)
qed

lemma Auth_failure_leaves_world:
  "Auth env w request_data args = Some (Returns r w') \<Longrightarrow>
   success_of r = Some False \<Longrightarrow> w' = w"
  by (auto simp: Auth_def
           split: sum.splits bool.splits json.splits if_splits prod.splits)

lemma Auth_success_all_pass:
  assumes "Auth env w request_data args = Some (Returns r w')"
    and "success_of r = Some True"
  shows "\<exists>account_list accounts user db'.
           py_getitem request_data ''accounts'' = Inr (JList account_list)
         \<and> (\<forall>account_data \<in> set account_list. \<exists>t. Auth_account env account_data = Inr (Inr t))
         \<and> FindOrCreateUser env accounts (db w) = (user, db')
         \<and> r = JObj [(''success'', JBool True), (''user_id'', JStr (user_id user))]
         \<and> w' = w\<lparr>current_user := Some user, db := db'\<rparr>"
  using assms
  by (auto simp: Auth_def
           split: sum.splits bool.splits json.splits if_splits prod.splits
           dest!: Auth_accounts_response dest: Auth_accounts_all_pass)

text \<open>
  Claim C4 does not hold of the code. The turn of the loop tests three of the four fields
  of an account with \<open>.get\<close> and then reads \<open>account_data['data']\<close> unguarded: an account
  whose token verifies but that has no \<open>data\<close> raises \<open>KeyError\<close>, also when a later
  element of the list is an empty object, and an element that is no object at all raises
  \<open>AttributeError\<close>. In each case the request ends in the exception, not in a failure
  response.
\<close>

theorem Auth_unchecked_account_raises:
  "Auth_route example_env anonymous_world
     (JObj [(''accounts'', JList
        [JObj [(''account_provider_type'', JStr ''google''), (''user_id'', JStr ''u''),
               (''auth_token'', JStr ''ok'')],
         JObj []])]) () = Some (Raises KeyError)
   \<and> Auth_route example_env anonymous_world
     (JObj [(''accounts'', JList
        [JObj [(''account_provider_type'', JStr ''google''), (''user_id'', JStr ''u''),
               (''auth_token'', JStr ''ok'')]])]) () = Some (Raises KeyError)
   \<and> Auth_route example_env anonymous_world
     (JObj [(''accounts'', JList [JNum 5])]) () = Some (Raises AttributeError)"
  by (simp add: Auth_route_def JsonView_def Auth_def Auth_account_def example_env_def)

text \<open>With the \<open>data\<close> present the same account is accepted and the user is logged in;
  an empty object alone, and a token the provider rejects, get the two failure responses.\<close>

lemma Auth_examples:
  "Auth_route example_env anonymous_world
     (JObj [(''accounts'', JList
        [JObj [(''account_provider_type'', JStr ''google''), (''user_id'', JStr ''u''),
               (''auth_token'', JStr ''ok''), (''data'', JNull)]])]) () =
     Some (Returns (JObj [(''success'', JBool True), (''user_id'', JStr ''u1'')])
            (anonymous_world\<lparr>current_user := Some \<lparr>user_id = ''u1''\<rparr>\<rparr>))"
  "Auth_route example_env anonymous_world (JObj [(''accounts'', JList [JObj []])]) () =
     Some (Returns INVALID_REQUEST_RESPONSE anonymous_world)"
  "Auth_route example_env anonymous_world
     (JObj [(''accounts'', JList
        [JObj [(''account_provider_type'', JStr ''google''), (''user_id'', JStr ''u''),
               (''auth_token'', JStr ''bad'')]])]) () =
     Some (Returns INVALID_TOKEN_RESPONSE anonymous_world)"
  by (simp_all add: Auth_route_def JsonView_def Auth_def Auth_account_def example_env_def
                    anonymous_world_def)

end
